theory Spec2Isabelle
  imports Main "HOL-Library.Word"
begin

unbundle bit_operations_syntax

section \<open>Native structures (the ctypes declarations of lustreapi.py)\<close>

text \<open>
  The ctypes structures are records whose fields are machine words of the declared
  width: \<open>c_uint\<close> is a 32-bit word, \<open>c_ulonglong\<close> a 64-bit word and \<open>c_short\<close> a
  16-bit word. Reading a field from Python gives an unbounded Python integer:
  \<open>uint\<close> of an unsigned field and \<open>sint\<close> of a signed one.
\<close>

record lov_user_ost_data_v1 =
  l_object_id :: "64 word"
  l_object_gr :: "64 word"
  l_ost_gen :: "32 word"
  l_ost_idx :: "32 word"

text \<open>
  \<open>lmm_objects\<close> is the array \<open>lov_user_ost_data_v1 * 2000\<close>: its entries are given
  by index, and the fixed length is \<open>lmm_objects_length\<close>.
\<close>

record lov_user_md_v1 =
  lmm_magic :: "32 word"
  lmm_pattern :: "32 word"
  lmm_object_id :: "64 word"
  lmm_object_gr :: "64 word"
  lmm_stripe_size :: "32 word"
  lmm_stripe_count :: "16 word"
  lmm_stripe_offset :: "16 word"
  lmm_objects :: "nat \<Rightarrow> lov_user_ost_data_v1"

record hsm_user_state =
  hus_states :: "32 word"
  hus_archive_id :: "32 word"

record lu_fid =
  f_seq :: "64 word"
  f_oid :: "32 word"
  f_ver :: "32 word"

definition lmm_objects_length :: int where
  "lmm_objects_length = 2000"

text \<open>A structure created by ctypes with no arguments is zero-filled.\<close>

definition new_lov_user_ost_data_v1 :: lov_user_ost_data_v1 where
  "new_lov_user_ost_data_v1 =
     \<lparr>l_object_id = 0, l_object_gr = 0, l_ost_gen = 0, l_ost_idx = 0\<rparr>"

definition new_lov_user_md_v1 :: lov_user_md_v1 where
  "new_lov_user_md_v1 =
     \<lparr>lmm_magic = 0, lmm_pattern = 0, lmm_object_id = 0, lmm_object_gr = 0,
      lmm_stripe_size = 0, lmm_stripe_count = 0, lmm_stripe_offset = 0,
      lmm_objects = (\<lambda>i. new_lov_user_ost_data_v1)\<rparr>"

section \<open>Exceptions\<close>

text \<open>
  \<open>IOError err msg\<close> is \<open>raise IOError(err, msg)\<close>. \<open>IndexError\<close> is what
  a ctypes array raises on an index outside its length, \<open>ValueError\<close> what \<open>int(s, 16)\<close>
  raises on a string that is no hexadecimal literal, \<open>OSError errno\<close> what a function
  of the module \<open>os\<close> raises on a descriptor. \<open>OverflowError\<close> is what \<open>os.strerror\<close>
  raises on an integer that is no C \<open>int\<close>, \<open>ArgumentError\<close> what ctypes raises on an
  argument it cannot convert to the declared type of the parameter, and \<open>TypeError\<close>
  what Python raises on operands of the wrong type.
\<close>

datatype error = IOError int string | OSError int | IndexError | ValueError
  | OverflowError | ArgumentError | TypeError

text \<open>
  \<open>os.strerror(code)\<close>: the argument is converted to a C \<open>int\<close>, which fails outside
  the range of that type; \<open>strerror\<close> is the message the platform has for an error
  number. The native functions return a C \<open>int\<close>, a code from -2147483648 to
  2147483647.
\<close>

definition os_strerror :: "(int \<Rightarrow> string) \<Rightarrow> int \<Rightarrow> error + string" where
  "os_strerror strerror code =
     (if - 2147483648 \<le> code \<and> code \<le> 2147483647 then Inr (strerror code)
      else Inl OverflowError)"

section \<open>The stripe object\<close>

record stripeObj =
  lovdata :: lov_user_md_v1
  stripecount :: int
  stripesize :: int
  stripeoffset :: int
  ostobjects :: "lov_user_ost_data_v1 list"

text \<open>\<open>stripeObj.__init__\<close>.\<close>

definition new_stripeObj :: stripeObj where
  "new_stripeObj =
     \<lparr>lovdata = new_lov_user_md_v1, stripecount = - 1, stripesize = 0,
      stripeoffset = - 1, ostobjects = []\<rparr>"

text \<open>\<open>stripeObj.isstriped\<close>.\<close>

definition isstriped :: "stripeObj \<Rightarrow> bool" where
  "isstriped self =
     (if stripecount self > 1 \<or> stripecount self = - 1 then True else False)"

subsection \<open>getstripe\<close>

text \<open>
  \<open>range(a, b)\<close> of Python, and the item access of the ctypes array \<open>lmm_objects\<close>: a
  negative index counts from the end, and an index outside the 2000 entries raises
  \<open>IndexError\<close>.
\<close>

definition py_range :: "int \<Rightarrow> int \<Rightarrow> int list" where
  "py_range a b = [a..b - 1]"

definition lmm_objects_item :: "lov_user_md_v1 \<Rightarrow> int \<Rightarrow> error + lov_user_ost_data_v1" where
  "lmm_objects_item lov i =
     (let j = (if i < 0 then i + lmm_objects_length else i)
      in if 0 \<le> j \<and> j < lmm_objects_length then Inr (lmm_objects lov (nat j))
         else Inl IndexError)"

text \<open>
  The loop \<open>for i in range(0, lovdata.lmm_stripe_count):
  stripeobj.ostobjects.append(lovdata.lmm_objects[i])\<close>, over the list of indices.
\<close>

fun append_objects :: "lov_user_md_v1 \<Rightarrow> int list \<Rightarrow> stripeObj \<Rightarrow> error + stripeObj" where
  "append_objects lov [] stripeobj = Inr stripeobj"
| "append_objects lov (i # is) stripeobj =
     (case lmm_objects_item lov i of
        Inl e \<Rightarrow> Inl e
      | Inr ost \<Rightarrow>
          append_objects lov is (stripeobj\<lparr>ostobjects := ostobjects stripeobj @ [ost]\<rparr>))"

text \<open>
  \<open>getstripe(filename)\<close>. The native library is a parameter:
  \<open>llapi_file_get_stripe filename\<close> is the code the call returns together with the
  structure it leaves in the buffer. In \<open>raise IOError(err, os.strerror(err))\<close> the
  message is computed first, so that an error of \<open>os.strerror\<close> is the one raised.
\<close>

definition getstripe ::
  "(int \<Rightarrow> string) \<Rightarrow> (string \<Rightarrow> int \<times> lov_user_md_v1) \<Rightarrow> string \<Rightarrow> error + stripeObj" where
  "getstripe strerror llapi_file_get_stripe filename =
     (let stripeobj = new_stripeObj;
          (err, lov) = llapi_file_get_stripe filename;
          stripeobj = stripeobj\<lparr>lovdata := lov\<rparr>
      in if err < 0 \<and> err \<noteq> - 61 then
           (let err = 0 - err
            in case os_strerror strerror err of
                 Inl e \<Rightarrow> Inl e
               | Inr msg \<Rightarrow> Inl (IOError err msg))
         else if err = - 61 then
           Inr (stripeobj\<lparr>stripecount := 0, stripesize := 0, stripeoffset := - 1\<rparr>)
         else
           (case append_objects lov (py_range 0 (sint (lmm_stripe_count lov))) stripeobj of
              Inl e \<Rightarrow> Inl e
            | Inr stripeobj \<Rightarrow>
                (let stripeobj = stripeobj\<lparr>stripecount := sint (lmm_stripe_count lov),
                                           stripesize := uint (lmm_stripe_size lov)\<rparr>
                 in if length (ostobjects stripeobj) > 0 then
                      Inr (stripeobj\<lparr>stripeoffset := uint (l_ost_idx (ostobjects stripeobj ! 0))\<rparr>)
                    else Inr (stripeobj\<lparr>stripeoffset := - 1\<rparr>))))"

section \<open>The HSM flags\<close>

text \<open>The table \<open>HSM_FLAGS\<close>: flag names with their bit values as hexadecimal literals.\<close>

definition HSM_FLAGS :: "(string \<times> string) list" where
  "HSM_FLAGS =
     [(''NONE'', ''0x00000000''),
      (''EXISTS'', ''0x00000001''),
      (''DIRTY'', ''0x00000002''),
      (''RELEASED'', ''0x00000004''),
      (''ARCHIVED'', ''0x00000008''),
      (''NORELEASE'', ''0x00000010''),
      (''NOARCHIVE'', ''0x00000020''),
      (''LOST'', ''0x00000040'')]"

text \<open>
  \<open>int(s, 16)\<close> on the literals of the table: an optional \<open>0x\<close> prefix, then at least
  one hexadecimal digit. Anything else is \<open>ValueError\<close> (the signs, blanks and
  underscores that Python also reads do not occur in \<open>HSM_FLAGS\<close>).
\<close>

definition hex_digit :: "char \<Rightarrow> int option" where
  "hex_digit c =
     (let n = (of_char c :: int)
      in if 48 \<le> n \<and> n \<le> 57 then Some (n - 48)
         else if 97 \<le> n \<and> n \<le> 102 then Some (n - 87)
         else if 65 \<le> n \<and> n \<le> 70 then Some (n - 55)
         else None)"

fun hex_digits :: "int \<Rightarrow> string \<Rightarrow> int option" where
  "hex_digits acc [] = Some acc"
| "hex_digits acc (c # cs) =
     (case hex_digit c of None \<Rightarrow> None | Some d \<Rightarrow> hex_digits (16 * acc + d) cs)"

definition int_base16 :: "string \<Rightarrow> error + int" where
  "int_base16 s =
     (let body = (if take 2 s = ''0x'' \<or> take 2 s = ''0X'' then drop 2 s else s)
      in if body = [] then Inl ValueError
         else (case hex_digits 0 body of None \<Rightarrow> Inl ValueError | Some v \<Rightarrow> Inr v))"

text \<open>
  \<open>HSM_state.__init__\<close>: the loop over the table appends the name of every flag whose
  value has a bit in common with the state, in table order.
\<close>

record HSM_state =
  archive_id :: int
  states :: "string list"

fun HSM_state_loop :: "int \<Rightarrow> (string \<times> string) list \<Rightarrow> string list \<Rightarrow> error + string list" where
  "HSM_state_loop state [] sts = Inr sts"
| "HSM_state_loop state (flag # flags) sts =
     (case int_base16 (snd flag) of
        Inl e \<Rightarrow> Inl e
      | Inr b \<Rightarrow>
          if state AND b \<noteq> 0 then HSM_state_loop state flags (sts @ [fst flag])
          else HSM_state_loop state flags sts)"

definition new_HSM_state :: "hsm_user_state \<Rightarrow> error + HSM_state" where
  "new_HSM_state hus =
     (let aid = uint (hus_archive_id hus);
          state = uint (hus_states hus)
      in case HSM_state_loop state HSM_FLAGS [] of
           Inl e \<Rightarrow> Inl e
         | Inr sts \<Rightarrow> Inr \<lparr>archive_id = aid, states = sts\<rparr>)"

text \<open>
  \<open>hsm_state_from_flags\<close>: for every entry of the table (outer loop) and every element
  of \<open>flags\<close> (inner loop), the value of the entry is added when the names are equal.
\<close>

fun from_flags_inner :: "string \<times> string \<Rightarrow> string list \<Rightarrow> int \<Rightarrow> error + int" where
  "from_flags_inner flag_def [] state = Inr state"
| "from_flags_inner flag_def (flag # flags) state =
     (if fst flag_def = flag then
        (case int_base16 (snd flag_def) of
           Inl e \<Rightarrow> Inl e
         | Inr v \<Rightarrow> from_flags_inner flag_def flags (state + v))
      else from_flags_inner flag_def flags state)"

fun from_flags_outer :: "(string \<times> string) list \<Rightarrow> string list \<Rightarrow> int \<Rightarrow> error + int" where
  "from_flags_outer [] flags state = Inr state"
| "from_flags_outer (flag_def # flag_defs) flags state =
     (case from_flags_inner flag_def flags state of
        Inl e \<Rightarrow> Inl e
      | Inr state' \<Rightarrow> from_flags_outer flag_defs flags state')"

definition hsm_state_from_flags :: "string list \<Rightarrow> error + int" where
  "hsm_state_from_flags flags = from_flags_outer HSM_FLAGS flags 0"

text \<open>The table with every literal replaced by the integer \<open>int(_, 16)\<close> reads from it.\<close>

definition HSM_FLAG_BITS :: "(string \<times> int) list" where
  "HSM_FLAG_BITS = zip (map fst HSM_FLAGS) [0, 1, 2, 4, 8, 16, 32, 64]"

text \<open>
  \<open>HSM_state.__str__\<close>. \<open>format_i\<close> is the conversion \<open>"%i" % n\<close> of an integer to
  decimal digits and \<open>str_join\<close> is \<open>sep.join(xs)\<close>.
\<close>

fun decimal :: "nat \<Rightarrow> string" where
  "decimal n =
     (if n < 10 then [''0123456789'' ! n]
      else decimal (n div 10) @ [''0123456789'' ! (n mod 10)])"

definition format_i :: "int \<Rightarrow> string" where
  "format_i i = (if i < 0 then CHR ''-'' # decimal (nat (- i)) else decimal (nat i))"

fun str_join :: "string \<Rightarrow> string list \<Rightarrow> string" where
  "str_join sep [] = []"
| "str_join sep [x] = x"
| "str_join sep (x # y # ys) = x @ sep @ str_join sep (y # ys)"

definition HSM_state_str :: "HSM_state \<Rightarrow> string" where
  "HSM_state_str self =
     (if length (states self) > 1 then
        (let string = ''Archive id:'' @ format_i (archive_id self);
             string = string @ [CHR 0x0A] @ ''States: '';
             sts = str_join '' '' (states self)
         in string @ sts)
      else ''No HSM state'')"

section \<open>The operations on file identifiers and HSM states\<close>

text \<open>
  File names are byte strings, so \<open>filename.encode('utf8')\<close> is the name itself. As in
  \<open>getstripe\<close>, each native function is a parameter that gives the code the call
  returns together with the structure it leaves in the buffer.
\<close>

text \<open>The class \<open>Fid\<close>; \<open>int\<close> of a Python integer is that integer.\<close>

record Fid =
  seq :: int
  oid :: int
  ver :: int

definition new_Fid :: "int \<Rightarrow> int \<Rightarrow> int \<Rightarrow> Fid" where
  "new_Fid s o' v = \<lparr>seq = s, oid = o', ver = v\<rparr>"

text \<open>\<open>path2fid(filename)\<close>.\<close>

definition path2fid ::
  "(int \<Rightarrow> string) \<Rightarrow> (string \<Rightarrow> int \<times> lu_fid) \<Rightarrow> string \<Rightarrow> error + Fid" where
  "path2fid strerror llapi_path2fid filename =
     (let (err, lufid) = llapi_path2fid filename
      in if err < 0 then
           (let err = 0 - err
            in case os_strerror strerror err of
                 Inl e \<Rightarrow> Inl e
               | Inr msg \<Rightarrow> Inl (IOError err msg))
         else Inr (new_Fid (uint (f_seq lufid)) (uint (f_oid lufid)) (uint (f_ver lufid))))"

text \<open>\<open>get_hsm_state(filename)\<close>.\<close>

definition get_hsm_state ::
  "(int \<Rightarrow> string) \<Rightarrow> (string \<Rightarrow> int \<times> hsm_user_state) \<Rightarrow> string \<Rightarrow> error + HSM_state" where
  "get_hsm_state strerror llapi_hsm_state_get filename =
     (let (err, hus) = llapi_hsm_state_get filename
      in if err < 0 then
           (let err = 0 - err
            in case os_strerror strerror err of
                 Inl e \<Rightarrow> Inl e
               | Inr msg \<Rightarrow> Inl (IOError err msg))
         else new_HSM_state hus)"

text \<open>
  The Python values that occur as arguments of a foreign call or of \<open>print\<close>:
  integers, strings (\<open>str\<close>) and byte strings (\<open>bytes\<close>).
\<close>

datatype pyobj = PyInt int | PyStr string | PyBytes string

text \<open>
  \<open>set_hsm_state(filename, setmask, clearmask, archive_id)\<close>. The first component of
  the result is what \<open>print\<close> wrote, one list of values for each line. The three
  numeric arguments of \<open>llapi_hsm_state_set\<close> are declared \<open>c_uint\<close>: ctypes keeps the
  low 32 bits of the integer it is given.
\<close>

definition set_hsm_state ::
  "(int \<Rightarrow> string) \<Rightarrow> (string \<Rightarrow> 32 word \<Rightarrow> 32 word \<Rightarrow> 32 word \<Rightarrow> int) \<Rightarrow>
   string \<Rightarrow> string list \<Rightarrow> string list \<Rightarrow> int \<Rightarrow> pyobj list list \<times> (error + unit)" where
  "set_hsm_state strerror llapi_hsm_state_set filename setmask clearmask archive =
     (case hsm_state_from_flags setmask of
        Inl e \<Rightarrow> ([], Inl e)
      | Inr sm \<Rightarrow>
         (case hsm_state_from_flags clearmask of
            Inl e \<Rightarrow> ([], Inl e)
          | Inr cm \<Rightarrow>
             (let out = [[PyStr filename, PyInt sm, PyInt cm, PyInt archive]];
                  err = llapi_hsm_state_set filename (word_of_int sm) (word_of_int cm)
                          (word_of_int archive)
              in if err < 0 then
                   (let err = 0 - err
                    in case os_strerror strerror err of
                         Inl e \<Rightarrow> (out, Inl e)
                       | Inr msg \<Rightarrow> (out, Inl (IOError err msg)))
                 else (out, Inr ()))))"

section \<open>Descriptors and the capture of the diagnostic stream\<close>

text \<open>
  The descriptor table of the process: a descriptor is an index, and an open
  descriptor refers to a file or to one end of a pipe. \<open>lowest_free\<close> is the
  descriptor that \<open>pipe\<close>, \<open>dup\<close> and \<open>open\<close> allocate, the lowest one that is not open.
\<close>

datatype open_file = File string | PipeRead nat | PipeWrite nat

type_synonym fd_table = "open_file option list"

definition fd_get :: "fd_table \<Rightarrow> nat \<Rightarrow> open_file option" where
  "fd_get t fd = (if fd < length t then t ! fd else None)"

definition fd_put :: "fd_table \<Rightarrow> nat \<Rightarrow> open_file option \<Rightarrow> fd_table" where
  "fd_put t fd f = (t @ replicate (Suc fd - length t) None)[fd := f]"

fun lowest_free :: "fd_table \<Rightarrow> nat" where
  "lowest_free [] = 0"
| "lowest_free (None # t) = 0"
| "lowest_free (Some f # t) = Suc (lowest_free t)"

text \<open>
  The state of the process as \<open>setstripe\<close> sees it: the descriptor table, the bytes
  waiting in each pipe, the number of pipes created so far, and the trace of the
  calls that change the descriptor table, together with the native call.
\<close>

datatype os_call = Pipe nat nat | Dup nat nat | Dup2 nat nat | Close nat | Llapi_file_open

record os_state =
  fds :: fd_table
  pipe_data :: "nat \<Rightarrow> string"
  npipes :: nat
  calls :: "os_call list"

text \<open>A computation on that state either raises or returns a value.\<close>

type_synonym 'a io = "os_state \<Rightarrow> (error + 'a) \<times> os_state"

definition io_return :: "'a \<Rightarrow> 'a io" where
  "io_return a s = (Inr a, s)"

definition io_raise :: "error \<Rightarrow> 'a io" where
  "io_raise e s = (Inl e, s)"

definition io_bind :: "'a io \<Rightarrow> ('a \<Rightarrow> 'b io) \<Rightarrow> 'b io" where
  "io_bind m f s = (case m s of (Inl e, s') \<Rightarrow> (Inl e, s') | (Inr a, s') \<Rightarrow> f a s')"

text \<open>
  \<open>os.pipe\<close>, \<open>os.dup\<close>, \<open>os.dup2\<close>, \<open>os.close\<close>, \<open>os.read\<close> and
  \<open>select.select\<close> with one descriptor and timeout 0. Each of them raises \<open>OSError\<close>
  with \<open>EBADF\<close> on a descriptor that is not open; the read end of a pipe is ready
  exactly when bytes are waiting in the pipe.
\<close>

definition EBADF :: int where
  "EBADF = 9"

definition os_pipe :: "(nat \<times> nat) io" where
  "os_pipe s =
     (let p = npipes s;
          r = lowest_free (fds s);
          t = fd_put (fds s) r (Some (PipeRead p));
          w = lowest_free t;
          t = fd_put t w (Some (PipeWrite p))
      in (Inr (r, w),
          s\<lparr>fds := t, pipe_data := (pipe_data s)(p := []), npipes := Suc p,
            calls := calls s @ [Pipe r w]\<rparr>))"

definition os_dup :: "nat \<Rightarrow> nat io" where
  "os_dup fd s =
     (case fd_get (fds s) fd of
        None \<Rightarrow> (Inl (OSError EBADF), s)
      | Some f \<Rightarrow>
          (let new = lowest_free (fds s)
           in (Inr new, s\<lparr>fds := fd_put (fds s) new (Some f),
                          calls := calls s @ [Dup fd new]\<rparr>)))"

definition os_dup2 :: "nat \<Rightarrow> nat \<Rightarrow> unit io" where
  "os_dup2 fd fd2 s =
     (case fd_get (fds s) fd of
        None \<Rightarrow> (Inl (OSError EBADF), s)
      | Some f \<Rightarrow>
          (Inr (), s\<lparr>fds := fd_put (fds s) fd2 (Some f), calls := calls s @ [Dup2 fd fd2]\<rparr>))"

definition os_close :: "nat \<Rightarrow> unit io" where
  "os_close fd s =
     (case fd_get (fds s) fd of
        None \<Rightarrow> (Inl (OSError EBADF), s)
      | Some f \<Rightarrow> (Inr (), s\<lparr>fds := fd_put (fds s) fd None, calls := calls s @ [Close fd]\<rparr>))"

definition os_read :: "nat \<Rightarrow> nat \<Rightarrow> string io" where
  "os_read fd n s =
     (case fd_get (fds s) fd of
        Some (PipeRead p) \<Rightarrow>
          (Inr (take n (pipe_data s p)),
           s\<lparr>pipe_data := (pipe_data s)(p := drop n (pipe_data s p))\<rparr>)
      | _ \<Rightarrow> (Inl (OSError EBADF), s))"

definition select_readable :: "nat \<Rightarrow> bool io" where
  "select_readable fd s =
     (case fd_get (fds s) fd of
        Some (PipeRead p) \<Rightarrow> (Inr (pipe_data s p \<noteq> []), s)
      | _ \<Rightarrow> (Inl (OSError EBADF), s))"

text \<open>The class \<open>captureStderr\<close> and its \<open>__init__\<close>.\<close>

record captureStderr =
  pipeout :: nat
  pipein :: nat
  oldstderr :: nat
  contents :: string

definition new_captureStderr :: "captureStderr io" where
  "new_captureStderr =
     io_bind os_pipe (\<lambda>(pout, pin).
     io_bind (os_dup 2) (\<lambda>old.
     io_bind (os_dup2 pin 2) (\<lambda>_.
     io_return \<lparr>pipeout = pout, pipein = pin, oldstderr = old, contents = []\<rparr>)))"

text \<open>
  \<open>self.contents += os.read(self.pipeout, 1024)\<close>: \<open>contents\<close> is a \<open>str\<close>, set to
  \<open>""\<close> by \<open>__init__\<close>, and \<open>os.read\<close> returns \<open>bytes\<close>. Python 3 does not add
  \<open>bytes\<close> to a \<open>str\<close>: the statement raises \<open>TypeError\<close>, whatever the two values.
\<close>

definition str_add_bytes :: "string \<Rightarrow> string \<Rightarrow> error + string" where
  "str_add_bytes str data = Inl TypeError"

text \<open>
  \<open>checkData\<close> and \<open>readData\<close>. The loop of \<open>readData\<close> ends because every round
  takes bytes out of the pipe.
\<close>

definition checkData :: "captureStderr \<Rightarrow> bool io" where
  "checkData self = select_readable (pipeout self)"

function readData :: "captureStderr \<Rightarrow> captureStderr io" where
  "readData self s =
     (case checkData self s of
        (Inl e, s') \<Rightarrow> (Inl e, s')
      | (Inr ready, s') \<Rightarrow>
          if ready then
            (case os_read (pipeout self) 1024 s' of
               (Inl e, s'') \<Rightarrow> (Inl e, s'')
             | (Inr data, s'') \<Rightarrow>
                 (case str_add_bytes (contents self) data of
                    Inl e \<Rightarrow> (Inl e, s'')
                  | Inr str \<Rightarrow> readData (self\<lparr>contents := str\<rparr>) s''))
          else (Inr self, s'))"
  by pat_completeness auto
termination
  by (relation "measure (\<lambda>(self, s).
        case fd_get (fds s) (pipeout self) of
          Some (PipeRead p) \<Rightarrow> length (pipe_data s p) | _ \<Rightarrow> 0)")
     (auto simp: checkData_def select_readable_def os_read_def
        split: option.splits open_file.splits)

declare readData.simps [simp del]

text \<open>\<open>stopCapture\<close>.\<close>

definition stopCapture :: "captureStderr \<Rightarrow> unit io" where
  "stopCapture self =
     io_bind (os_dup2 (oldstderr self) 2) (\<lambda>_.
     io_bind (os_close (pipeout self)) (\<lambda>_.
     os_close (pipein self)))"

subsection \<open>setstripe\<close>

text \<open>
  The arguments \<open>setstripe\<close> passes to \<open>llapi_file_open\<close>, in the order of the call.
  \<open>stripeobj\<close> is \<open>None\<close> or a stripe object, and a stripe object is true in
  \<open>if stripeobj:\<close>. The file name is given as \<open>bytes\<close>, as the \<open>c_char_p\<close>
  parameter requires; the mode is the \<open>str\<close> literal \<open>'0700'\<close>.
\<close>

definition O_CREAT :: int where
  "O_CREAT = 64"

definition setstripe_args ::
  "string \<Rightarrow> stripeObj option \<Rightarrow> int \<Rightarrow> int \<Rightarrow> int \<Rightarrow> pyobj list" where
  "setstripe_args filename stripeobj ssize soffset scount =
     (let flags = O_CREAT;
          mode = ''0700'';
          stripe_pattern = 0;
          (ssize, soffset, scount) =
            (case stripeobj of
               Some so \<Rightarrow> (stripesize so, stripeoffset so, stripecount so)
             | None \<Rightarrow> (ssize, soffset, scount))
      in [PyBytes filename, PyInt flags, PyStr mode, PyInt ssize, PyInt soffset,
          PyInt scount, PyInt stripe_pattern])"

text \<open>
  The declared parameter types of \<open>llapi_file_open\<close> (\<open>argtypes\<close>), and what ctypes
  does with the arguments of a call before the native function runs: each argument
  is converted to the type declared for its position, in order. A \<open>c_char_p\<close>
  parameter takes \<open>bytes\<close> and neither a \<open>str\<close> nor an integer; the integer types
  take a Python integer, of which they keep the low bits, and neither a \<open>str\<close> nor
  \<open>bytes\<close>. The first argument that cannot be converted raises \<open>ArgumentError\<close>;
  too few arguments raise \<open>TypeError\<close>.
\<close>

datatype ctype = C_char_p | C_int | C_ulong

definition llapi_file_open_argtypes :: "ctype list" where
  "llapi_file_open_argtypes = [C_char_p, C_int, C_int, C_ulong, C_int, C_int, C_int]"

fun from_param :: "ctype \<Rightarrow> pyobj \<Rightarrow> error + pyobj" where
  "from_param C_char_p (PyBytes b) = Inr (PyBytes b)"
| "from_param C_char_p (PyStr s) = Inl ArgumentError"
| "from_param C_char_p (PyInt i) = Inl ArgumentError"
| "from_param C_int (PyInt i) = Inr (PyInt (sint (word_of_int i :: 32 word)))"
| "from_param C_int (PyStr s) = Inl ArgumentError"
| "from_param C_int (PyBytes b) = Inl ArgumentError"
| "from_param C_ulong (PyInt i) = Inr (PyInt (uint (word_of_int i :: 64 word)))"
| "from_param C_ulong (PyStr s) = Inl ArgumentError"
| "from_param C_ulong (PyBytes b) = Inl ArgumentError"

fun convert_args :: "ctype list \<Rightarrow> pyobj list \<Rightarrow> error + pyobj list" where
  "convert_args [] args = Inr args"
| "convert_args (t # ts) [] = Inl TypeError"
| "convert_args (t # ts) (a # args) =
     (case from_param t a of
        Inl e \<Rightarrow> Inl e
      | Inr c \<Rightarrow>
          (case convert_args ts args of
             Inl e \<Rightarrow> Inl e
           | Inr cs \<Rightarrow> Inr (c # cs)))"

text \<open>
  The call \<open>lustre.llapi_file_open(...)\<close>. When ctypes has converted the arguments,
  the native function runs: \<open>llapi_file_open args\<close> is the code it returns together
  with the bytes it has written to descriptor 2, and a code that is not negative is a
  descriptor, which the function has opened on the file. When ctypes refuses an
  argument, the call raises and the native function does not run.
\<close>

definition llapi_file_open_call ::
  "(pyobj list \<Rightarrow> int \<times> string) \<Rightarrow> string \<Rightarrow> pyobj list \<Rightarrow> int io" where
  "llapi_file_open_call llapi_file_open filename args s =
     (case convert_args llapi_file_open_argtypes args of
        Inl e \<Rightarrow> (Inl e, s)
      | Inr cargs \<Rightarrow>
          (let (fd, diag) = llapi_file_open cargs;
               s = (case fd_get (fds s) 2 of
                      Some (PipeWrite p) \<Rightarrow>
                        s\<lparr>pipe_data := (pipe_data s)(p := pipe_data s p @ diag)\<rparr>
                    | _ \<Rightarrow> s);
               s = (if 0 \<le> fd then s\<lparr>fds := fd_put (fds s) (nat fd) (Some (File filename))\<rparr>
                    else s)
           in (Inr fd, s\<lparr>calls := calls s @ [Llapi_file_open]\<rparr>)))"

text \<open>
  \<open>setstripe(filename, stripeobj, stripesize, stripeoffset, stripecount)\<close>. There is
  no \<open>try\<close> in it: an exception of one statement leaves the function at once, and the
  statements after it do not run.
\<close>

definition setstripe ::
  "(int \<Rightarrow> string) \<Rightarrow> (pyobj list \<Rightarrow> int \<times> string) \<Rightarrow> string \<Rightarrow> stripeObj option \<Rightarrow>
   int \<Rightarrow> int \<Rightarrow> int \<Rightarrow> int io" where
  "setstripe strerror llapi_file_open filename stripeobj ssize soffset scount =
     io_bind new_captureStderr (\<lambda>message.
     io_bind (llapi_file_open_call llapi_file_open filename
                (setstripe_args filename stripeobj ssize soffset scount)) (\<lambda>fd.
     io_bind (readData message) (\<lambda>message.
     io_bind (stopCapture message) (\<lambda>_.
       if fd < 0 then
         (let err = 0 - fd
          in case os_strerror strerror err of
               Inl e \<Rightarrow> io_raise e
             | Inr msg \<Rightarrow> io_raise (IOError err msg))
       else io_bind (os_close (nat fd)) (\<lambda>_. io_return 0)))))"

section \<open>Properties of the stripe object\<close>

text \<open>
  C8: for every stripe object, \<open>isstriped\<close> is true exactly when the stripe count is
  greater than 1 or equal to -1; in particular it is false for a stripe count of 0.
\<close>

theorem isstriped_iff:
  "isstriped s = (stripecount s > 1 \<or> stripecount s = - 1)
   \<and> isstriped (s\<lparr>stripecount := 0\<rparr>) = False"
  by (simp add: isstriped_def)

text \<open>
  C10: a freshly constructed stripe object has stripe count -1, stripe size 0, stripe
  offset -1 and no placement entries, and \<open>isstriped\<close> holds of it.
\<close>

theorem new_stripeObj_fields:
  "stripecount new_stripeObj = - 1 \<and> stripesize new_stripeObj = 0
   \<and> stripeoffset new_stripeObj = - 1 \<and> ostobjects new_stripeObj = []
   \<and> isstriped new_stripeObj = True"
  by (simp add: new_stripeObj_def isstriped_def)

subsection \<open>getstripe\<close>

text \<open>The copying loop, on indices inside the array and on a split index list.\<close>

lemma append_objects_in_range:
  "\<forall>i\<in>set is. 0 \<le> i \<and> i < 2000 \<Longrightarrow>
   append_objects lov is s =
     Inr (s\<lparr>ostobjects := ostobjects s @ map (\<lambda>i. lmm_objects lov (nat i)) is\<rparr>)"
  by (induction "is" arbitrary: s)
     (simp_all add: lmm_objects_item_def lmm_objects_length_def)

lemma append_objects_append:
  "append_objects lov (xs @ ys) s =
     (case append_objects lov xs s of Inl e \<Rightarrow> Inl e | Inr s' \<Rightarrow> append_objects lov ys s')"
  by (induction xs arbitrary: s) (simp_all split: sum.splits)

lemma upto_nat: "[0..int n - 1] = map int [0..<n]"
proof (induction n)
  case 0
  show ?case by simp
next
  case (Suc n)
  have "[0..int (Suc n) - 1] = [0..int n - 1] @ [int n]"
    using upto_rec2 [of 0 "int n"] by simp
  with Suc show ?case by simp
qed

lemma py_range_upt: "py_range 0 n = map int [0..<nat n]"
proof (cases "0 \<le> n")
  case True
  then show ?thesis using upto_nat [of "nat n"] by (simp add: py_range_def)
next
  case False
  then show ?thesis by (simp add: py_range_def)
qed

text \<open>
  C4: when the native call returns -61, \<open>getstripe\<close> does not fail and returns a
  stripe object with stripe count 0, stripe size 0, stripe offset -1 and no placement
  entries; for every other negative return code \<open>r\<close> it raises \<open>IOError\<close> with the
  error number \<open>-r\<close> and \<open>os.strerror(-r)\<close>. The code \<open>r\<close> is the negation of an
  error number, a C \<open>int\<close>: it is above -2147483648, the one negative C \<open>int\<close> whose
  negation is none.
\<close>

theorem getstripe_negative_code:
  assumes "llapi filename = (r, lov)" and "r < 0" and "- 2147483648 < r"
  shows "getstripe strerror llapi filename =
     (if r = - 61 then
        Inr \<lparr>lovdata = lov, stripecount = 0, stripesize = 0, stripeoffset = - 1,
             ostobjects = []\<rparr>
      else Inl (IOError (- r) (strerror (- r))))"
  using assms by (simp add: getstripe_def new_stripeObj_def Let_def os_strerror_def)

theorem getstripe_negative_code_witness:
  "(\<lambda>f. (- 61, new_lov_user_md_v1)) ''/lustre/a'' = (- 61 :: int, new_lov_user_md_v1)
   \<and> (- 61 :: int) < 0 \<and> (- 2147483648 :: int) < - 61
   \<and> getstripe (\<lambda>e. ''errno'') (\<lambda>f. (- 61, new_lov_user_md_v1)) ''/lustre/a'' =
       Inr \<lparr>lovdata = new_lov_user_md_v1, stripecount = 0, stripesize = 0,
            stripeoffset = - 1, ostobjects = []\<rparr>
   \<and> (- 2 :: int) < 0 \<and> (- 2147483648 :: int) < - 2
   \<and> getstripe (\<lambda>e. ''errno'') (\<lambda>f. (- 2, new_lov_user_md_v1)) ''/lustre/a'' =
       Inl (IOError 2 ''errno'')
   \<and> (- 2147483647 :: int) < 0 \<and> (- 2147483648 :: int) < - 2147483647
   \<and> getstripe (\<lambda>e. ''errno'') (\<lambda>f. (- 2147483647, new_lov_user_md_v1)) ''/lustre/a'' =
       Inl (IOError 2147483647 ''errno'')"
  using getstripe_negative_code [of "\<lambda>f. (- 61, new_lov_user_md_v1)" "''/lustre/a''" "- 61"
      new_lov_user_md_v1 "\<lambda>e. ''errno''"]
    getstripe_negative_code [of "\<lambda>f. (- 2, new_lov_user_md_v1)" "''/lustre/a''" "- 2"
      new_lov_user_md_v1 "\<lambda>e. ''errno''"]
    getstripe_negative_code [of "\<lambda>f. (- 2147483647, new_lov_user_md_v1)" "''/lustre/a''"
      "- 2147483647" new_lov_user_md_v1 "\<lambda>e. ''errno''"]
  by simp

text \<open>
  At the code -2147483648 the number \<open>0 - err\<close> is no C \<open>int\<close>: \<open>os.strerror\<close> raises
  \<open>OverflowError\<close>, and that is what \<open>getstripe\<close> raises.
\<close>

lemma getstripe_least_code:
  "llapi filename = (- 2147483648, lov) \<Longrightarrow>
   getstripe strerror llapi filename = Inl OverflowError"
  by (simp add: getstripe_def new_stripeObj_def Let_def os_strerror_def)

text \<open>
  The successful path in closed form, for a reported stripe count of at most 2000.
\<close>

lemma getstripe_success:
  assumes "llapi filename = (err, lov)" and "0 \<le> err"
    and "sint (lmm_stripe_count lov) \<le> 2000"
  shows "getstripe strerror llapi filename =
     Inr \<lparr>lovdata = lov, stripecount = sint (lmm_stripe_count lov),
          stripesize = uint (lmm_stripe_size lov),
          stripeoffset = (if 0 < sint (lmm_stripe_count lov)
                          then uint (l_ost_idx (lmm_objects lov 0)) else - 1),
          ostobjects = map (lmm_objects lov) [0..<nat (sint (lmm_stripe_count lov))]\<rparr>"
proof -
  let ?c = "sint (lmm_stripe_count lov)"
  have in_range: "\<forall>i\<in>set (py_range 0 ?c). 0 \<le> i \<and> i < 2000"
    using assms(3) by (auto simp: py_range_upt)
  have objs: "map (\<lambda>i. lmm_objects lov (nat i)) (py_range 0 ?c) =
      map (lmm_objects lov) [0..<nat ?c]"
    by (simp add: py_range_upt o_def)
  have copied: "append_objects lov (py_range 0 ?c)
        \<lparr>lovdata = lov, stripecount = - 1, stripesize = 0, stripeoffset = - 1,
         ostobjects = []\<rparr> =
      Inr \<lparr>lovdata = lov, stripecount = - 1, stripesize = 0, stripeoffset = - 1,
           ostobjects = map (lmm_objects lov) [0..<nat ?c]\<rparr>"
    unfolding append_objects_in_range [OF in_range] objs by simp
  have hd0: "0 < ?c \<Longrightarrow> map (lmm_objects lov) [0..<nat ?c] ! 0 = lmm_objects lov 0"
    by simp
  from assms(1,2) show ?thesis
    by (simp add: getstripe_def Let_def copied new_stripeObj_def hd0)
qed

text \<open>
  C5 (as amended): for every non-negative native return code and every reported
  stripe count \<open>c\<close> of at most 2000, \<open>getstripe\<close> returns a stripe object whose
  placement list is exactly the first \<open>max 0 c\<close> entries of the native array (none
  when \<open>c\<close> is negative), and whose stripe offset is the \<open>l_ost_idx\<close> of the first
  placement entry when the list is non-empty and -1 otherwise.
\<close>

theorem getstripe_success_layout:
  assumes "llapi filename = (err, lov)" and "0 \<le> err"
    and "sint (lmm_stripe_count lov) \<le> 2000"
  shows "\<exists>s. getstripe strerror llapi filename = Inr s
    \<and> ostobjects s = map (lmm_objects lov) [0..<nat (sint (lmm_stripe_count lov))]
    \<and> int (length (ostobjects s)) = max 0 (sint (lmm_stripe_count lov))
    \<and> stripecount s = sint (lmm_stripe_count lov)
    \<and> stripesize s = uint (lmm_stripe_size lov)
    \<and> stripeoffset s =
        (if ostobjects s \<noteq> [] then uint (l_ost_idx (hd (ostobjects s))) else - 1)"
proof -
  let ?c = "sint (lmm_stripe_count lov)"
  have first: "0 < ?c \<Longrightarrow> hd (map (lmm_objects lov) [0..<nat ?c]) = lmm_objects lov 0"
    by (simp add: hd_map)
  show ?thesis
    unfolding getstripe_success [of llapi filename err lov strerror, OF assms] using first by auto
qed

theorem getstripe_success_layout_witness:
  "(\<lambda>f. (0, new_lov_user_md_v1\<lparr>lmm_stripe_size := 1048576, lmm_stripe_count := 2,
        lmm_objects := (\<lambda>i. new_lov_user_ost_data_v1\<lparr>l_ost_idx := 5 + of_nat i\<rparr>)\<rparr>))
     ''/lustre/a'' =
     (0 :: int, new_lov_user_md_v1\<lparr>lmm_stripe_size := 1048576, lmm_stripe_count := 2,
        lmm_objects := (\<lambda>i. new_lov_user_ost_data_v1\<lparr>l_ost_idx := 5 + of_nat i\<rparr>)\<rparr>)
   \<and> (0 :: int) \<le> 0
   \<and> sint (2 :: 16 word) \<le> 2000
   \<and> (\<exists>s. getstripe (\<lambda>e. ''errno'')
         (\<lambda>f. (0, new_lov_user_md_v1\<lparr>lmm_stripe_size := 1048576, lmm_stripe_count := 2,
            lmm_objects := (\<lambda>i. new_lov_user_ost_data_v1\<lparr>l_ost_idx := 5 + of_nat i\<rparr>)\<rparr>))
         ''/lustre/a'' = Inr s
       \<and> ostobjects s = [new_lov_user_ost_data_v1\<lparr>l_ost_idx := 5\<rparr>,
                         new_lov_user_ost_data_v1\<lparr>l_ost_idx := 6\<rparr>]
       \<and> stripecount s = 2 \<and> stripesize s = 1048576 \<and> stripeoffset s = 5)"
  using getstripe_success_layout [of
      "\<lambda>f. (0, new_lov_user_md_v1\<lparr>lmm_stripe_size := 1048576, lmm_stripe_count := 2,
            lmm_objects := (\<lambda>i. new_lov_user_ost_data_v1\<lparr>l_ost_idx := 5 + of_nat i\<rparr>)\<rparr>)"
      "''/lustre/a''" 0
      "new_lov_user_md_v1\<lparr>lmm_stripe_size := 1048576, lmm_stripe_count := 2,
            lmm_objects := (\<lambda>i. new_lov_user_ost_data_v1\<lparr>l_ost_idx := 5 + of_nat i\<rparr>)\<rparr>"
      "\<lambda>e. ''errno''"]
  by (auto simp: upt_rec new_lov_user_ost_data_v1_def)

text \<open>
  The claim as first stated fails on two native results with return code 0: with a
  reported stripe count of -1 (a layout striped over all targets) no entry is copied,
  so the number of entries is not the reported count; with a reported count of 2001
  the read of entry 2000 raises \<open>IndexError\<close> and no stripe object is returned.
\<close>

lemma append_objects_beyond:
  "append_objects lov (py_range 0 2001) s = Inl IndexError"
proof -
  have split: "py_range 0 2001 = py_range 0 2000 @ [2000]"
    using upto_rec2 [of 0 2000] by (simp add: py_range_def)
  have in_range: "\<forall>i\<in>set (py_range 0 2000). 0 \<le> i \<and> i < 2000"
    by (auto simp: py_range_upt)
  show ?thesis
    unfolding split append_objects_append append_objects_in_range [OF in_range]
    by (simp add: lmm_objects_item_def lmm_objects_length_def)
qed

theorem getstripe_count_counterexample:
  "getstripe (\<lambda>e. ''errno'') (\<lambda>f. (0, new_lov_user_md_v1\<lparr>lmm_stripe_count := - 1\<rparr>))
     ''/lustre/dir'' =
     Inr \<lparr>lovdata = new_lov_user_md_v1\<lparr>lmm_stripe_count := - 1\<rparr>, stripecount = - 1,
          stripesize = 0, stripeoffset = - 1, ostobjects = []\<rparr>
   \<and> int (length ([] :: lov_user_ost_data_v1 list)) \<noteq> sint (- 1 :: 16 word)
   \<and> getstripe (\<lambda>e. ''errno'') (\<lambda>f. (0, new_lov_user_md_v1\<lparr>lmm_stripe_count := 2001\<rparr>))
     ''/lustre/a'' = Inl IndexError"
  by (simp add: getstripe_def new_stripeObj_def new_lov_user_md_v1_def py_range_def
      append_objects_beyond [unfolded py_range_def, simplified])

section \<open>Properties of the HSM flag codec\<close>

subsection \<open>The two loops in closed form\<close>

lemma parse_table:
  "map (\<lambda>d. int_base16 (snd d)) HSM_FLAGS = map Inr [0, 1, 2, 4, 8, 16, 32, 64]"
  by (simp add: HSM_FLAGS_def int_base16_def hex_digit_def)

lemma from_flags_inner_count:
  "int_base16 (snd flag_def) = Inr v \<Longrightarrow>
   from_flags_inner flag_def flags state =
     Inr (state + v * int (count_list flags (fst flag_def)))"
  by (induction flags arbitrary: state) (simp_all add: algebra_simps)

lemma from_flags_outer_count:
  "map (\<lambda>d. int_base16 (snd d)) defs = map Inr vs \<Longrightarrow>
   from_flags_outer defs flags state =
     Inr (state + (\<Sum>(name, v)\<leftarrow>zip (map fst defs) vs. v * int (count_list flags name)))"
proof (induction defs arbitrary: vs state)
  case Nil
  then show ?case by simp
next
  case (Cons d defs)
  then obtain v vs' where vs: "vs = v # vs'" by (cases vs) auto
  with Cons.prems have d: "int_base16 (snd d) = Inr v"
    and rest: "map (\<lambda>d. int_base16 (snd d)) defs = map Inr vs'" by simp_all
  show ?case
    by (simp add: vs from_flags_inner_count [OF d] Cons.IH [OF rest])
qed

lemma hsm_state_from_flags_count:
  "hsm_state_from_flags flags =
     Inr (\<Sum>(name, v)\<leftarrow>HSM_FLAG_BITS. v * int (count_list flags name))"
  by (simp add: hsm_state_from_flags_def HSM_FLAG_BITS_def
      from_flags_outer_count [OF parse_table])

lemma HSM_state_loop_filter:
  "map (\<lambda>d. int_base16 (snd d)) defs = map Inr vs \<Longrightarrow>
   HSM_state_loop state defs sts =
     Inr (sts @ map fst (filter (\<lambda>(name, v). state AND v \<noteq> 0) (zip (map fst defs) vs)))"
proof (induction defs arbitrary: vs sts)
  case Nil
  then show ?case by simp
next
  case (Cons d defs)
  then obtain v vs' where vs: "vs = v # vs'" by (cases vs) auto
  with Cons.prems have d: "int_base16 (snd d) = Inr v"
    and rest: "map (\<lambda>d. int_base16 (snd d)) defs = map Inr vs'" by simp_all
  show ?case
    by (simp add: vs d Cons.IH [OF rest])
qed

lemma new_HSM_state_filter:
  "new_HSM_state hus =
     Inr \<lparr>archive_id = uint (hus_archive_id hus),
          states = map fst (filter (\<lambda>(name, v). uint (hus_states hus) AND v \<noteq> 0)
                     HSM_FLAG_BITS)\<rparr>"
  by (simp add: new_HSM_state_def HSM_FLAG_BITS_def HSM_state_loop_filter [OF parse_table])


lemma HSM_FLAG_BITS_eq:
  "HSM_FLAG_BITS =
     [(''NONE'', 0), (''EXISTS'', 1), (''DIRTY'', 2), (''RELEASED'', 4), (''ARCHIVED'', 8),
      (''NORELEASE'', 16), (''NOARCHIVE'', 32), (''LOST'', 64)]"
  by (simp add: HSM_FLAG_BITS_def HSM_FLAGS_def)

lemma count_list_distinct: "distinct xs \<Longrightarrow> int (count_list xs x) = of_bool (x \<in> set xs)"
  by (induction xs) auto

lemma bit_tests:
  fixes m :: int
  shows "(m AND 1 \<noteq> 0) = bit m 0" "(m AND 2 \<noteq> 0) = bit m 1" "(m AND 4 \<noteq> 0) = bit m 2"
    "(m AND 8 \<noteq> 0) = bit m 3" "(m AND 16 \<noteq> 0) = bit m 4" "(m AND 32 \<noteq> 0) = bit m 5"
    "(m AND 64 \<noteq> 0) = bit m 6"
  using and_exp_eq_0_iff_not_bit [of m 0] and_exp_eq_0_iff_not_bit [of m 1]
    and_exp_eq_0_iff_not_bit [of m 2] and_exp_eq_0_iff_not_bit [of m 3]
    and_exp_eq_0_iff_not_bit [of m 4] and_exp_eq_0_iff_not_bit [of m 5]
    and_exp_eq_0_iff_not_bit [of m 6]
  by simp_all

lemma hsm_state_from_flags_horner:
  assumes "distinct flags"
  shows "hsm_state_from_flags flags =
     Inr (horner_sum of_bool 2 (map (\<lambda>name. name \<in> set flags)
       [''EXISTS'', ''DIRTY'', ''RELEASED'', ''ARCHIVED'', ''NORELEASE'', ''NOARCHIVE'',
        ''LOST'']))"
  by (simp add: hsm_state_from_flags_count HSM_FLAG_BITS_eq count_list_distinct [OF assms])

lemma mem_filter_keys:
  "distinct (map fst tbl) \<Longrightarrow> (n, v) \<in> set tbl \<Longrightarrow>
   (n \<in> set (map fst (filter P tbl))) = P (n, v)"
  by (auto simp: image_iff dest: eq_key_imp_eq_value)

lemma keys_step:
  fixes m :: int
  assumes t: "(m AND 1 \<noteq> 0) = b1" "(m AND 2 \<noteq> 0) = b2" "(m AND 4 \<noteq> 0) = b3"
    "(m AND 8 \<noteq> 0) = b4" "(m AND 16 \<noteq> 0) = b5" "(m AND 32 \<noteq> 0) = b6"
    "(m AND 64 \<noteq> 0) = b7"
  shows "(\<exists>v. (n, v) \<in> set [(n0, 0), (n1, 1), (n2, 2), (n3, 4), (n4, 8), (n5, 16), (n6, 32),
       (n7, 64)] \<and> m AND v \<noteq> 0) =
     ((n = n1 \<and> b1) \<or> (n = n2 \<and> b2) \<or> (n = n3 \<and> b3) \<or> (n = n4 \<and> b4) \<or> (n = n5 \<and> b5)
      \<or> (n = n6 \<and> b6) \<or> (n = n7 \<and> b7))"
  by (simp add: t conj_disj_distribR ex_disj_distrib)

lemma names_step:
  assumes "S \<subseteq> {n0, n1, n2, n3, n4, n5, n6, n7}"
    and "n0 \<notin> {n1, n2, n3, n4, n5, n6, n7}"
  shows "((n = n1 \<and> n1 \<in> S) \<or> (n = n2 \<and> n2 \<in> S) \<or> (n = n3 \<and> n3 \<in> S) \<or> (n = n4 \<and> n4 \<in> S)
      \<or> (n = n5 \<and> n5 \<in> S) \<or> (n = n6 \<and> n6 \<in> S) \<or> (n = n7 \<and> n7 \<in> S)) =
     (n \<in> S - {n0})"
  using assms by auto

lemma decode_encode:
  assumes "distinct F" and "set F \<subseteq> fst ` set HSM_FLAGS"
  shows "\<exists>m h. hsm_state_from_flags F = Inr m
     \<and> new_HSM_state \<lparr>hus_states = word_of_int m, hus_archive_id = a\<rparr> = Inr h
     \<and> set (states h) = set F - {''NONE''}"
proof -
  define bs where "bs = map (\<lambda>name. name \<in> set F)
       [''EXISTS'', ''DIRTY'', ''RELEASED'', ''ARCHIVED'', ''NORELEASE'', ''NOARCHIVE'',
        ''LOST'']"
  define m :: int where "m = horner_sum of_bool 2 bs"
  have len: "length bs = 7" by (simp add: bs_def)
  have enc: "hsm_state_from_flags F = Inr m"
    unfolding m_def bs_def by (rule hsm_state_from_flags_horner [OF assms(1)])
  have "take_bit 32 m = horner_sum of_bool 2 (take 32 bs)"
    unfolding m_def by (rule take_bit_horner_sum_bit_eq)
  then have m32: "uint (word_of_int m :: 32 word) = m"
    by (simp add: uint_word_of_int_eq len m_def)
  have bits: "bit m j = (j < 7 \<and> bs ! j)" for j
    by (simp add: m_def bit_horner_sum_bit_iff len)
  have tests: "(m AND 1 \<noteq> 0) = (''EXISTS'' \<in> set F)" "(m AND 2 \<noteq> 0) = (''DIRTY'' \<in> set F)"
      "(m AND 4 \<noteq> 0) = (''RELEASED'' \<in> set F)" "(m AND 8 \<noteq> 0) = (''ARCHIVED'' \<in> set F)"
      "(m AND 16 \<noteq> 0) = (''NORELEASE'' \<in> set F)" "(m AND 32 \<noteq> 0) = (''NOARCHIVE'' \<in> set F)"
      "(m AND 64 \<noteq> 0) = (''LOST'' \<in> set F)"
    unfolding bit_tests bits by (simp_all add: bs_def)
  have names: "fst ` set HSM_FLAGS = {''NONE'', ''EXISTS'', ''DIRTY'', ''RELEASED'', ''ARCHIVED'',
      ''NORELEASE'', ''NOARCHIVE'', ''LOST''}"
    by (simp add: HSM_FLAGS_def)
  have "(n \<in> set (map fst (filter (\<lambda>(name, v). m AND v \<noteq> 0) HSM_FLAG_BITS))) =
      (n \<in> set F - {''NONE''})" for n
  proof -
    have "(n \<in> set (map fst (filter (\<lambda>(name, v). m AND v \<noteq> 0) HSM_FLAG_BITS))) =
        (\<exists>v. (n, v) \<in> set HSM_FLAG_BITS \<and> m AND v \<noteq> 0)"
      by (auto simp: image_iff)
    also have "\<dots> = ((n = ''EXISTS'' \<and> ''EXISTS'' \<in> set F) \<or> (n = ''DIRTY'' \<and> ''DIRTY'' \<in> set F)
        \<or> (n = ''RELEASED'' \<and> ''RELEASED'' \<in> set F) \<or> (n = ''ARCHIVED'' \<and> ''ARCHIVED'' \<in> set F)
        \<or> (n = ''NORELEASE'' \<and> ''NORELEASE'' \<in> set F)
        \<or> (n = ''NOARCHIVE'' \<and> ''NOARCHIVE'' \<in> set F) \<or> (n = ''LOST'' \<and> ''LOST'' \<in> set F))"
      unfolding HSM_FLAG_BITS_eq by (rule keys_step [OF tests])
    also have "\<dots> = (n \<in> set F - {''NONE''})"
    proof (rule names_step)
      show "set F \<subseteq> {''NONE'', ''EXISTS'', ''DIRTY'', ''RELEASED'', ''ARCHIVED'', ''NORELEASE'',
          ''NOARCHIVE'', ''LOST''}"
        using assms(2) unfolding names .
      show "''NONE'' \<notin> {''EXISTS'', ''DIRTY'', ''RELEASED'', ''ARCHIVED'', ''NORELEASE'',
          ''NOARCHIVE'', ''LOST''}"
        by simp
    qed
    finally show ?thesis .
  qed
  then have "set (map fst (filter (\<lambda>(name, v). m AND v \<noteq> 0) HSM_FLAG_BITS)) =
      set F - {''NONE''}"
    by (rule set_eqI)
  then show ?thesis
    by (simp add: enc new_HSM_state_filter m32)
qed

lemma encode_decode:
  "\<exists>h. new_HSM_state \<lparr>hus_states = M, hus_archive_id = a\<rparr> = Inr h
     \<and> hsm_state_from_flags (states h) = Inr (take_bit 7 (uint M))"
proof -
  let ?P = "\<lambda>(name, v). uint M AND v \<noteq> (0 :: int)"
  let ?sts = "map fst (filter ?P HSM_FLAG_BITS)"
  have keys: "distinct (map fst HSM_FLAG_BITS)"
    by (simp add: HSM_FLAG_BITS_eq)
  then have dist: "distinct ?sts"
    by (rule distinct_map_filter)
  have mem: "(n, v) \<in> set HSM_FLAG_BITS \<Longrightarrow> (n \<in> set ?sts) = ?P (n, v)" for n v
    by (rule mem_filter_keys [OF keys])
  have upt7: "[0..<7] = [0, 1, 2, 3, 4, 5, 6 :: nat]"
    by (simp add: upt_rec)
  have "map (\<lambda>name. name \<in> set ?sts)
         [''EXISTS'', ''DIRTY'', ''RELEASED'', ''ARCHIVED'', ''NORELEASE'', ''NOARCHIVE'',
          ''LOST''] = map (bit (uint M)) [0..<7]"
    unfolding upt7 by (simp add: mem HSM_FLAG_BITS_eq bit_tests)
  then have "hsm_state_from_flags ?sts =
      Inr (horner_sum of_bool 2 (map (bit (uint M)) [0..<7]))"
    unfolding hsm_state_from_flags_horner [OF dist] by (simp only:)
  then show ?thesis
    by (simp add: new_HSM_state_filter horner_sum_bit_eq_take_bit)
qed

lemma count_list_filter: "P x \<Longrightarrow> count_list (filter P xs) x = count_list xs x"
  by (induction xs) auto

lemma hsm_state_from_flags_known:
  "hsm_state_from_flags (filter (\<lambda>flag. flag \<in> fst ` set HSM_FLAGS) flags) =
   hsm_state_from_flags flags"
proof -
  have known: "(name, v) \<in> set HSM_FLAG_BITS \<Longrightarrow> name \<in> fst ` set HSM_FLAGS" for name v
    unfolding HSM_FLAG_BITS_def by (drule set_zip_leftD) simp
  have "map (\<lambda>(name, v). v * int (count_list
        (filter (\<lambda>flag. flag \<in> fst ` set HSM_FLAGS) flags) name)) HSM_FLAG_BITS =
      map (\<lambda>(name, v). v * int (count_list flags name)) HSM_FLAG_BITS"
  proof (rule map_cong [OF refl])
    fix x
    assume x: "x \<in> set HSM_FLAG_BITS"
    obtain name v where nv: "x = (name, v)" by (cases x)
    from x nv have "name \<in> fst ` set HSM_FLAGS" by (simp add: known)
    then have "count_list (filter (\<lambda>flag. flag \<in> fst ` set HSM_FLAGS) flags) name =
        count_list flags name"
      by (rule count_list_filter)
    then show "(case x of (name, v) \<Rightarrow> v * int (count_list
          (filter (\<lambda>flag. flag \<in> fst ` set HSM_FLAGS) flags) name)) =
        (case x of (name, v) \<Rightarrow> v * int (count_list flags name))"
      by (simp add: nv)
  qed
  then show ?thesis
    by (simp only: hsm_state_from_flags_count)
qed

lemma hsm_state_from_flags_distinct:
  assumes "distinct flags"
  shows "hsm_state_from_flags flags =
     Inr (\<Sum>(name, v)\<leftarrow>HSM_FLAG_BITS. if name \<in> set flags then v else 0)"
proof -
  have "map (\<lambda>(name, v). v * int (count_list flags name)) HSM_FLAG_BITS =
      map (\<lambda>(name, v). if name \<in> set flags then v else 0) HSM_FLAG_BITS"
    by (intro map_cong refl) (auto simp: count_list_distinct [OF assms])
  then show ?thesis
    by (simp only: hsm_state_from_flags_count)
qed

text \<open>
  On an input in which no name is repeated, encoding sums the bit value of each flag
  of the table whose name is in the input exactly once; on every input, names that
  are not in the table are ignored (removing them does not change the result) and no
  error is raised.
\<close>

lemma hsm_state_from_flags_once:
  "(distinct flags \<longrightarrow>
      hsm_state_from_flags flags =
        Inr (\<Sum>(name, v)\<leftarrow>HSM_FLAG_BITS. if name \<in> set flags then v else 0))
   \<and> hsm_state_from_flags (filter (\<lambda>flag. flag \<in> fst ` set HSM_FLAGS) flags) =
       hsm_state_from_flags flags
   \<and> (\<exists>m. hsm_state_from_flags flags = Inr m)"
  using hsm_state_from_flags_distinct [of flags] hsm_state_from_flags_known [of flags]
  by (simp add: hsm_state_from_flags_count)

lemma hsm_state_from_flags_once_example:
  "distinct [''LOST'', ''bogus'', ''EXISTS'']
   \<and> hsm_state_from_flags [''LOST'', ''bogus'', ''EXISTS''] = Inr 65
   \<and> hsm_state_from_flags [''LOST'', ''EXISTS''] = Inr 65"
  using hsm_state_from_flags_once [of "[''LOST'', ''bogus'', ''EXISTS'']"]
  by (simp add: HSM_FLAG_BITS_eq HSM_FLAGS_def)

text \<open>
  C3: encoding does not sum the bit value of a matched flag exactly once when its
  name is repeated in the input. For every input sequence the value of each flag of
  the table is added once for each occurrence of its name; so \<open>EXISTS\<close> given twice
  encodes to 2, which is the mask of \<open>DIRTY\<close> and not the bit 1 of \<open>EXISTS\<close>, and
  \<open>LOST\<close> given twice encodes to 128, a bit of no flag.
\<close>

theorem hsm_state_from_flags_duplicates:
  "hsm_state_from_flags flags =
     Inr (\<Sum>(name, v)\<leftarrow>HSM_FLAG_BITS. v * int (count_list flags name))
   \<and> hsm_state_from_flags [''EXISTS''] = Inr 1
   \<and> hsm_state_from_flags [''EXISTS'', ''EXISTS''] = Inr 2
   \<and> hsm_state_from_flags [''DIRTY''] = Inr 2
   \<and> hsm_state_from_flags [''LOST'', ''LOST''] = Inr 128"
proof -
  have "hsm_state_from_flags [''EXISTS''] = Inr 1"
    "hsm_state_from_flags [''EXISTS'', ''EXISTS''] = Inr 2"
    "hsm_state_from_flags [''DIRTY''] = Inr 2"
    "hsm_state_from_flags [''LOST'', ''LOST''] = Inr 128"
    by (simp_all add: hsm_state_from_flags_count HSM_FLAG_BITS_eq)
  then show ?thesis
    by (simp only: hsm_state_from_flags_count [of flags] simp_thms)
qed

text \<open>
  C1 (as amended): for every duplicate-free list \<open>F\<close> of flag names of the table
  that does not contain \<open>NONE\<close>, decoding the mask obtained by encoding \<open>F\<close> yields
  exactly the names of \<open>F\<close> (as a set); and for every 32-bit mask \<open>M\<close> with no bit
  above 0x40 (\<open>M \<le> 0x7F\<close>), encoding the flags obtained by decoding \<open>M\<close> yields \<open>M\<close>.
\<close>

theorem hsm_codec_roundtrip:
  "(distinct F \<and> set F \<subseteq> fst ` set HSM_FLAGS \<and> ''NONE'' \<notin> set F \<longrightarrow>
      (\<exists>m h. hsm_state_from_flags F = Inr m
         \<and> new_HSM_state \<lparr>hus_states = word_of_int m, hus_archive_id = a\<rparr> = Inr h
         \<and> set (states h) = set F))
   \<and> (M \<le> 0x7F \<longrightarrow>
      (\<exists>h. new_HSM_state \<lparr>hus_states = M, hus_archive_id = a\<rparr> = Inr h
         \<and> hsm_state_from_flags (states h) = Inr (uint M)))"
proof (intro conjI impI)
  assume F: "distinct F \<and> set F \<subseteq> fst ` set HSM_FLAGS \<and> ''NONE'' \<notin> set F"
  then have "set F - {''NONE''} = set F" by auto
  with decode_encode [of F a] F
  show "\<exists>m h. hsm_state_from_flags F = Inr m
         \<and> new_HSM_state \<lparr>hus_states = word_of_int m, hus_archive_id = a\<rparr> = Inr h
         \<and> set (states h) = set F"
    by simp
next
  assume "M \<le> 0x7F"
  then have "uint M < 2 ^ 7"
    by (simp add: word_le_def)
  then have "take_bit 7 (uint M) = uint M"
    by (simp add: take_bit_int_eq_self)
  with encode_decode [of M a]
  show "\<exists>h. new_HSM_state \<lparr>hus_states = M, hus_archive_id = a\<rparr> = Inr h
         \<and> hsm_state_from_flags (states h) = Inr (uint M)"
    by simp
qed

theorem hsm_codec_roundtrip_witness:
  "distinct [''LOST'', ''EXISTS''] \<and> set [''LOST'', ''EXISTS''] \<subseteq> fst ` set HSM_FLAGS
   \<and> ''NONE'' \<notin> set [''LOST'', ''EXISTS'']
   \<and> hsm_state_from_flags [''LOST'', ''EXISTS''] = Inr 65
   \<and> new_HSM_state \<lparr>hus_states = 65, hus_archive_id = 3\<rparr> =
       Inr \<lparr>archive_id = 3, states = [''EXISTS'', ''LOST'']\<rparr>
   \<and> (0x49 :: 32 word) \<le> 0x7F
   \<and> new_HSM_state \<lparr>hus_states = 0x49, hus_archive_id = 3\<rparr> =
       Inr \<lparr>archive_id = 3, states = [''EXISTS'', ''ARCHIVED'', ''LOST'']\<rparr>
   \<and> hsm_state_from_flags [''EXISTS'', ''ARCHIVED'', ''LOST''] = Inr 0x49"
  using hsm_codec_roundtrip [of "[''LOST'', ''EXISTS'']" 3 "0x49"]
  by (simp add: hsm_state_from_flags_count new_HSM_state_filter HSM_FLAG_BITS_eq HSM_FLAGS_def)

text \<open>
  The claim as first stated fails in both directions: \<open>NONE\<close> has the value 0 and is
  never decoded, so the set \<open>{NONE}\<close> does not come back; and the mask 0x80, a bit
  the table does not name, decodes to no flag and encodes back to 0.
\<close>

theorem hsm_codec_roundtrip_counterexample:
  "hsm_state_from_flags [''NONE''] = Inr 0
   \<and> new_HSM_state \<lparr>hus_states = 0, hus_archive_id = 0\<rparr> =
       Inr \<lparr>archive_id = 0, states = []\<rparr>
   \<and> set ([] :: string list) \<noteq> set [''NONE'']
   \<and> new_HSM_state \<lparr>hus_states = 0x80, hus_archive_id = 0\<rparr> =
       Inr \<lparr>archive_id = 0, states = []\<rparr>
   \<and> hsm_state_from_flags [] = Inr 0
   \<and> (0 :: int) \<noteq> uint (0x80 :: 32 word)"
  by (simp add: hsm_state_from_flags_count new_HSM_state_filter HSM_FLAG_BITS_eq)

subsection \<open>The textual summary\<close>

lemma new_HSM_state_distinct:
  "new_HSM_state hus = Inr h \<Longrightarrow> distinct (states h)"
proof -
  assume h: "new_HSM_state hus = Inr h"
  have "distinct (map fst HSM_FLAG_BITS)"
    by (simp add: HSM_FLAG_BITS_eq)
  then have "distinct (map fst (filter (\<lambda>(name, v). uint (hus_states hus) AND v \<noteq> 0)
      HSM_FLAG_BITS))"
    by (rule distinct_map_filter)
  with h show ?thesis
    by (auto simp: new_HSM_state_filter)
qed

text \<open>
  C9: for every decoded HSM state, the summary is \<open>No HSM state\<close> exactly when the
  decoded flag set has at most one element; when it has more than one, the summary is
  the archive id followed by the flag names.
\<close>

theorem HSM_state_str_summary:
  assumes "new_HSM_state hus = Inr h"
  shows "(HSM_state_str h = ''No HSM state'') = (card (set (states h)) \<le> 1)
    \<and> (1 < card (set (states h)) \<longrightarrow>
         HSM_state_str h =
           ''Archive id:'' @ format_i (archive_id h) @ [CHR 0x0A] @ ''States: ''
             @ str_join '' '' (states h))"
proof -
  have "card (set (states h)) = length (states h)"
    using new_HSM_state_distinct [OF assms] by (rule distinct_card)
  then show ?thesis
    by (simp add: HSM_state_str_def Let_def)
qed

theorem HSM_state_str_summary_witness:
  "new_HSM_state \<lparr>hus_states = 9, hus_archive_id = 3\<rparr> =
     Inr \<lparr>archive_id = 3, states = [''EXISTS'', ''ARCHIVED'']\<rparr>
   \<and> HSM_state_str \<lparr>archive_id = 3, states = [''EXISTS'', ''ARCHIVED'']\<rparr> =
       ''Archive id:3'' @ [CHR 0x0A] @ ''States: EXISTS ARCHIVED''
   \<and> new_HSM_state \<lparr>hus_states = 1, hus_archive_id = 3\<rparr> =
       Inr \<lparr>archive_id = 3, states = [''EXISTS'']\<rparr>
   \<and> HSM_state_str \<lparr>archive_id = 3, states = [''EXISTS'']\<rparr> = ''No HSM state''"
  using HSM_state_str_summary [of "\<lparr>hus_states = 9, hus_archive_id = 3\<rparr>"
      "\<lparr>archive_id = 3, states = [''EXISTS'', ''ARCHIVED'']\<rparr>"]
    HSM_state_str_summary [of "\<lparr>hus_states = 1, hus_archive_id = 3\<rparr>"
      "\<lparr>archive_id = 3, states = [''EXISTS'']\<rparr>"]
  by (simp add: new_HSM_state_filter HSM_FLAG_BITS_eq format_i_def)

section \<open>Properties of setstripe and of the error translation\<close>

subsection \<open>The descriptor table and the capture\<close>

lemma fd_get_put: "fd_get (fd_put t a f) b = (if a = b then f else fd_get t b)"
  by (auto simp: fd_get_def fd_put_def nth_append nth_list_update)

lemma lowest_free_None: "fd_get t (lowest_free t) = None"
  by (induction t rule: lowest_free.induct) (auto simp: fd_get_def split: if_splits)

lemma lowest_free_neq: "fd_get t x = Some f \<Longrightarrow> lowest_free t \<noteq> x"
  using lowest_free_None [of t] by auto

lemma new_captureStderr_run:
  assumes fd2: "fd_get (fds s) 2 = Some f2"
  obtains r w old s1 where
    "new_captureStderr s =
       (Inr \<lparr>pipeout = r, pipein = w, oldstderr = old, contents = []\<rparr>, s1)"
    "\<And>x. fd_get (fds s1) x =
       (if x = 2 \<or> x = w then Some (PipeWrite (npipes s))
        else if x = r then Some (PipeRead (npipes s))
        else if x = old then Some f2
        else fd_get (fds s) x)"
    "r \<noteq> 2" "w \<noteq> 2" "old \<noteq> 2" "r \<noteq> w" "r \<noteq> old" "w \<noteq> old"
    "pipe_data s1 (npipes s) = []"
    "calls s1 = calls s @ [Pipe r w, Dup 2 old, Dup2 w 2]"
proof -
  define r where "r = lowest_free (fds s)"
  define t1 where "t1 = fd_put (fds s) r (Some (PipeRead (npipes s)))"
  define w where "w = lowest_free t1"
  define t2 where "t2 = fd_put t1 w (Some (PipeWrite (npipes s)))"
  define old where "old = lowest_free t2"
  define t3 where "t3 = fd_put t2 old (Some f2)"
  define t4 where "t4 = fd_put t3 2 (Some (PipeWrite (npipes s)))"
  define s1 where "s1 = s\<lparr>fds := t4, pipe_data := (pipe_data s)(npipes s := []),
    npipes := Suc (npipes s), calls := calls s @ [Pipe r w, Dup 2 old, Dup2 w 2]\<rparr>"
  have r2: "r \<noteq> 2"
    unfolding r_def using fd2 by (rule lowest_free_neq)
  have "fd_get t1 r = Some (PipeRead (npipes s))"
    by (simp add: t1_def fd_get_put)
  then have wr: "w \<noteq> r"
    unfolding w_def by (rule lowest_free_neq)
  have t12: "fd_get t1 2 = Some f2"
    using r2 fd2 by (simp add: t1_def fd_get_put)
  then have w2: "w \<noteq> 2"
    unfolding w_def by (rule lowest_free_neq)
  have "fd_get t2 r = Some (PipeRead (npipes s))"
    using wr by (simp add: t2_def t1_def fd_get_put)
  then have oldr: "old \<noteq> r"
    unfolding old_def by (rule lowest_free_neq)
  have t2w: "fd_get t2 w = Some (PipeWrite (npipes s))"
    by (simp add: t2_def fd_get_put)
  then have oldw: "old \<noteq> w"
    unfolding old_def by (rule lowest_free_neq)
  have t22: "fd_get t2 2 = Some f2"
    using w2 t12 by (simp add: t2_def fd_get_put)
  then have old2: "old \<noteq> 2"
    unfolding old_def by (rule lowest_free_neq)
  have t3w: "fd_get t3 w = Some (PipeWrite (npipes s))"
    using oldw t2w by (simp add: t3_def fd_get_put)
  have "os_pipe s = (Inr (r, w), s\<lparr>fds := t2, pipe_data := (pipe_data s)(npipes s := []),
      npipes := Suc (npipes s), calls := calls s @ [Pipe r w]\<rparr>)"
    by (simp add: os_pipe_def Let_def r_def t1_def w_def t2_def)
  moreover have "os_dup 2 (s\<lparr>fds := t2, pipe_data := (pipe_data s)(npipes s := []),
      npipes := Suc (npipes s), calls := calls s @ [Pipe r w]\<rparr>) =
      (Inr old, s\<lparr>fds := t3, pipe_data := (pipe_data s)(npipes s := []),
        npipes := Suc (npipes s), calls := calls s @ [Pipe r w, Dup 2 old]\<rparr>)"
    using t22 by (simp add: os_dup_def Let_def old_def t3_def)
  moreover have "os_dup2 w 2 (s\<lparr>fds := t3, pipe_data := (pipe_data s)(npipes s := []),
        npipes := Suc (npipes s), calls := calls s @ [Pipe r w, Dup 2 old]\<rparr>) = (Inr (), s1)"
    using t3w by (simp add: os_dup2_def s1_def t4_def)
  ultimately have "new_captureStderr s =
      (Inr \<lparr>pipeout = r, pipein = w, oldstderr = old, contents = []\<rparr>, s1)"
    by (simp add: new_captureStderr_def io_bind_def io_return_def)
  moreover have "fd_get (fds s1) x =
       (if x = 2 \<or> x = w then Some (PipeWrite (npipes s))
        else if x = r then Some (PipeRead (npipes s))
        else if x = old then Some f2
        else fd_get (fds s) x)" for x
    using r2 w2 old2 wr oldr oldw
    by (auto simp: s1_def t4_def t3_def t2_def t1_def fd_get_put)
  moreover have "pipe_data s1 (npipes s) = []"
    by (simp add: s1_def)
  moreover have "calls s1 = calls s @ [Pipe r w, Dup 2 old, Dup2 w 2]"
    by (simp add: s1_def)
  ultimately show thesis
    using r2 w2 old2 wr oldr oldw by (intro that [of r w old s1]) auto
qed

subsection \<open>The arguments of the native call\<close>

text \<open>
  C2: for every path and every choice of stripe parameters, the argument list
  \<open>setstripe\<close> passes to \<open>llapi_file_open\<close> has the stripe pattern 0 in its last
  position; its mode argument, in the third position, is the string \<open>'0700'\<close>, which
  is not the integer 448 (octal 0700) of the owner-only mode bits.
\<close>

theorem setstripe_args_mode:
  "setstripe_args filename stripeobj ssize soffset scount ! 6 = PyInt 0 \<and>
   setstripe_args filename stripeobj ssize soffset scount ! 2 = PyStr ''0700'' \<and>
   setstripe_args filename stripeobj ssize soffset scount ! 2 \<noteq> PyInt 448"
  by (simp add: setstripe_args_def Let_def split: option.split)

text \<open>
  ctypes refuses the arguments of \<open>setstripe\<close>, whatever they are: the mode is a
  \<open>str\<close> where \<open>argtypes\<close> has \<open>c_int\<close>.
\<close>

lemma setstripe_args_shape:
  "\<exists>a b c. setstripe_args filename stripeobj ssize soffset scount =
     [PyBytes filename, PyInt O_CREAT, PyStr ''0700'', PyInt a, PyInt b, PyInt c, PyInt 0]"
  by (cases stripeobj) (simp_all add: setstripe_args_def Let_def)

lemma setstripe_args_refused:
  "convert_args llapi_file_open_argtypes
     (setstripe_args filename stripeobj ssize soffset scount) = Inl ArgumentError"
proof -
  from setstripe_args_shape [of filename stripeobj ssize soffset scount]
  obtain a b c where "setstripe_args filename stripeobj ssize soffset scount =
     [PyBytes filename, PyInt O_CREAT, PyStr ''0700'', PyInt a, PyInt b, PyInt c, PyInt 0]"
    by blast
  then show ?thesis
    by (simp add: llapi_file_open_argtypes_def)
qed

lemma llapi_file_open_call_refused:
  "llapi_file_open_call llapi_file_open filename
     (setstripe_args filename stripeobj ssize soffset scount) s = (Inl ArgumentError, s)"
  by (simp add: llapi_file_open_call_def setstripe_args_refused)

text \<open>
  One run of \<open>setstripe\<close>: when the capture has been set up, it ends at the call of
  \<open>llapi_file_open\<close>, in the state the capture has left.
\<close>

lemma setstripe_after_capture:
  assumes "new_captureStderr s = (Inr m, s1)"
  shows "setstripe strerror llapi_file_open filename stripeobj ssize soffset scount s =
      (Inl ArgumentError, s1)"
  unfolding setstripe_def
  by (subst io_bind_def) (simp add: assms io_bind_def llapi_file_open_call_refused)

text \<open>The same when descriptor 2 is open, with what the capture has done.\<close>

lemma setstripe_run:
  assumes fd2: "fd_get (fds s) 2 = Some f2"
  obtains r w old s' where
    "setstripe strerror llapi_file_open filename stripeobj ssize soffset scount s =
       (Inl ArgumentError, s')"
    "calls s' = calls s @ [Pipe r w, Dup 2 old, Dup2 w 2]"
    "fd_get (fds s') 2 = Some (PipeWrite (npipes s))"
    "fd_get (fds s') r = Some (PipeRead (npipes s))"
    "fd_get (fds s') w = Some (PipeWrite (npipes s))"
    "fd_get (fds s') old = Some f2"
proof -
  from new_captureStderr_run [OF fd2] obtain r w old s1 where
    cap: "new_captureStderr s =
       (Inr \<lparr>pipeout = r, pipein = w, oldstderr = old, contents = []\<rparr>, s1)"
    and fds1: "\<And>x. fd_get (fds s1) x =
       (if x = 2 \<or> x = w then Some (PipeWrite (npipes s))
        else if x = r then Some (PipeRead (npipes s))
        else if x = old then Some f2
        else fd_get (fds s) x)"
    and neq: "r \<noteq> 2" "w \<noteq> 2" "old \<noteq> 2" "r \<noteq> w" "r \<noteq> old" "w \<noteq> old"
    and pd1: "pipe_data s1 (npipes s) = []"
    and calls1: "calls s1 = calls s @ [Pipe r w, Dup 2 old, Dup2 w 2]"
    by blast
  from cap have "setstripe strerror llapi_file_open filename stripeobj ssize soffset scount s =
      (Inl ArgumentError, s1)"
    by (rule setstripe_after_capture)
  then show thesis
    using neq calls1 by (intro that [of s1 r w old]) (simp_all add: fds1)
qed

subsection \<open>The translation of the native return code\<close>

text \<open>
  \<open>path2fid\<close>, \<open>get_hsm_state\<close> and \<open>set_hsm_state\<close>, for every code \<open>raw\<close> above
  -2147483648 that the native call returns: if \<open>raw < 0\<close> the operation raises
  \<open>IOError\<close> with the error number \<open>-raw\<close> and \<open>os.strerror(-raw)\<close>, and if
  \<open>raw \<ge> 0\<close> it succeeds.
\<close>

lemma path2fid_translation:
  assumes "llapi_path2fid filename = (raw, lufid)" and "- 2147483648 < raw"
  shows "path2fid strerror llapi_path2fid filename =
      (if raw < 0 then Inl (IOError (- raw) (strerror (- raw)))
       else Inr \<lparr>seq = uint (f_seq lufid), oid = uint (f_oid lufid), ver = uint (f_ver lufid)\<rparr>)"
  using assms by (simp add: path2fid_def new_Fid_def Let_def os_strerror_def)

lemma get_hsm_state_translation:
  assumes "llapi_hsm_state_get filename = (raw, hus)" and "- 2147483648 < raw"
  shows "get_hsm_state strerror llapi_hsm_state_get filename =
      (if raw < 0 then Inl (IOError (- raw) (strerror (- raw)))
       else Inr \<lparr>archive_id = uint (hus_archive_id hus),
         states = map fst (filter (\<lambda>(name, v). uint (hus_states hus) AND v \<noteq> 0)
           HSM_FLAG_BITS)\<rparr>)"
  using assms by (simp add: get_hsm_state_def Let_def new_HSM_state_filter os_strerror_def)

lemma set_hsm_state_translation:
  assumes "hsm_state_from_flags setmask = Inr sm"
    and "hsm_state_from_flags clearmask = Inr cm"
    and "llapi_hsm_state_set filename (word_of_int sm) (word_of_int cm) (word_of_int archive) =
      raw"
    and "- 2147483648 < raw"
  shows "snd (set_hsm_state strerror llapi_hsm_state_set filename setmask clearmask archive) =
      (if raw < 0 then Inl (IOError (- raw) (strerror (- raw))) else Inr ())"
  using assms by (simp add: set_hsm_state_def Let_def os_strerror_def)

lemma path2fid_least_code:
  "llapi_path2fid filename = (- 2147483648, lufid) \<Longrightarrow>
   path2fid strerror llapi_path2fid filename = Inl OverflowError"
  by (simp add: path2fid_def Let_def os_strerror_def)

text \<open>
  C6: \<open>setstripe\<close> does not translate the code of the native call. Whatever the
  native function would return, a descriptor or a negative code, the call of
  \<open>llapi_file_open\<close> raises \<open>ArgumentError\<close> before the native function runs, and
  that is what \<open>setstripe\<close> raises when descriptor 2 is open: it neither succeeds
  and closes a descriptor, nor raises \<open>IOError\<close>.
\<close>

theorem setstripe_raises_ArgumentError:
  assumes "fd_get (fds s) 2 = Some f2"
  shows "fst (setstripe strerror llapi_file_open filename stripeobj ssize soffset scount s) =
    Inl ArgumentError"
proof (rule setstripe_run [where strerror = strerror and llapi_file_open = llapi_file_open and
    filename = filename and stripeobj = stripeobj and ssize = ssize and soffset = soffset and
    scount = scount, OF assms])
  fix r w old s'
  assume "setstripe strerror llapi_file_open filename stripeobj ssize soffset scount s =
      (Inl ArgumentError, s')"
  then show ?thesis
    by simp
qed

theorem setstripe_raises_ArgumentError_witness:
  "fd_get (fds \<lparr>fds = [Some (File ''stdin''), Some (File ''stdout''), Some (File ''stderr'')],
         pipe_data = (\<lambda>p. []), npipes = 0, calls = []\<rparr>) 2 = Some (File ''stderr'') \<and>
   fst (setstripe (\<lambda>e. ''errno'') (\<lambda>args. (6, [])) ''/lustre/a'' None 0 (- 1) 1
     \<lparr>fds = [Some (File ''stdin''), Some (File ''stdout''), Some (File ''stderr'')],
         pipe_data = (\<lambda>p. []), npipes = 0, calls = []\<rparr>) = Inl ArgumentError \<and>
   fst (setstripe (\<lambda>e. ''errno'') (\<lambda>args. (- 2, ''no such file'')) ''/lustre/a'' None 0 (- 1) 1
     \<lparr>fds = [Some (File ''stdin''), Some (File ''stdout''), Some (File ''stderr'')],
         pipe_data = (\<lambda>p. []), npipes = 0, calls = []\<rparr>) = Inl ArgumentError"
proof -
  let ?s = "\<lparr>fds = [Some (File ''stdin''), Some (File ''stdout''), Some (File ''stderr'')],
         pipe_data = (\<lambda>p. []), npipes = 0, calls = []\<rparr>"
  have fd2: "fd_get (fds ?s) 2 = Some (File ''stderr'')"
    by (simp add: fd_get_def)
  note a = setstripe_raises_ArgumentError [where strerror = "\<lambda>e. ''errno''"
      and filename = "''/lustre/a''" and stripeobj = None and ssize = 0 and soffset = "- 1"
      and scount = 1 and s = ?s and ?f2.0 = "File ''stderr''"
      and llapi_file_open = "\<lambda>args. (6, [])", OF fd2]
    and b = setstripe_raises_ArgumentError [where strerror = "\<lambda>e. ''errno''"
      and filename = "''/lustre/a''" and stripeobj = None and ssize = 0 and soffset = "- 1"
      and scount = 1 and s = ?s and ?f2.0 = "File ''stderr''"
      and llapi_file_open = "\<lambda>args. (- 2, ''no such file'')", OF fd2]
  from a b fd2 show ?thesis
    by simp
qed

subsection \<open>The release of the capture\<close>

text \<open>
  \<open>readData\<close> itself raises as soon as the pipe holds data.
\<close>

lemma readData_pending:
  assumes "fd_get (fds s) (pipeout self) = Some (PipeRead p)"
  shows "fst (readData self s) = (if pipe_data s p = [] then Inr self else Inl TypeError)"
  using assms
  by (subst readData.simps)
    (simp add: checkData_def select_readable_def os_read_def str_add_bytes_def)

text \<open>
  C7: in \<open>setstripe\<close> the release of the capture does not run. When descriptor 2 is
  open, the calls of \<open>setstripe\<close> are those of the capture, \<open>pipe\<close>, \<open>dup(2)\<close> and
  \<open>dup2\<close> of the write end onto descriptor 2, and no other: the call of
  \<open>llapi_file_open\<close> raises, and neither \<open>dup2\<close> of the saved descriptor onto
  descriptor 2 nor a close follows. When \<open>setstripe\<close> has failed, descriptor 2 refers
  to the write end of the pipe, both ends of the pipe are open, and the target
  descriptor 2 had before is left on the saved descriptor.
\<close>

theorem setstripe_no_release:
  assumes "fd_get (fds s) 2 = Some f2"
  shows "\<exists>r w old.
    calls (snd (setstripe strerror llapi_file_open filename stripeobj ssize soffset scount s)) =
      calls s @ [Pipe r w, Dup 2 old, Dup2 w 2] \<and>
    fd_get (fds (snd (setstripe strerror llapi_file_open filename stripeobj ssize soffset
      scount s))) 2 = Some (PipeWrite (npipes s)) \<and>
    fd_get (fds (snd (setstripe strerror llapi_file_open filename stripeobj ssize soffset
      scount s))) r = Some (PipeRead (npipes s)) \<and>
    fd_get (fds (snd (setstripe strerror llapi_file_open filename stripeobj ssize soffset
      scount s))) w = Some (PipeWrite (npipes s)) \<and>
    fd_get (fds (snd (setstripe strerror llapi_file_open filename stripeobj ssize soffset
      scount s))) old = Some f2"
proof (rule setstripe_run [where strerror = strerror and llapi_file_open = llapi_file_open and
    filename = filename and stripeobj = stripeobj and ssize = ssize and soffset = soffset and
    scount = scount, OF assms])
  fix r w old s'
  assume "setstripe strerror llapi_file_open filename stripeobj ssize soffset scount s =
      (Inl ArgumentError, s')"
    and "calls s' = calls s @ [Pipe r w, Dup 2 old, Dup2 w 2]"
    and "fd_get (fds s') 2 = Some (PipeWrite (npipes s))"
    and "fd_get (fds s') r = Some (PipeRead (npipes s))"
    and "fd_get (fds s') w = Some (PipeWrite (npipes s))"
    and "fd_get (fds s') old = Some f2"
  then show ?thesis
    by (intro exI [of _ r] exI [of _ w] exI [of _ old]) simp
qed

theorem setstripe_no_release_witness:
  "fd_get (fds \<lparr>fds = [Some (File ''stdin''), Some (File ''stdout''), Some (File ''stderr'')],
         pipe_data = (\<lambda>p. []), npipes = 0, calls = []\<rparr>) 2 = Some (File ''stderr'') \<and>
   (\<exists>r w old.
     calls (snd (setstripe (\<lambda>e. ''errno'') (\<lambda>args. (6, [])) ''/lustre/a'' None 0 (- 1) 1
       \<lparr>fds = [Some (File ''stdin''), Some (File ''stdout''), Some (File ''stderr'')],
         pipe_data = (\<lambda>p. []), npipes = 0, calls = []\<rparr>)) = [Pipe r w, Dup 2 old, Dup2 w 2] \<and>
     fd_get (fds (snd (setstripe (\<lambda>e. ''errno'') (\<lambda>args. (6, [])) ''/lustre/a'' None 0 (- 1) 1
       \<lparr>fds = [Some (File ''stdin''), Some (File ''stdout''), Some (File ''stderr'')],
         pipe_data = (\<lambda>p. []), npipes = 0, calls = []\<rparr>))) 2 = Some (PipeWrite 0) \<and>
     fd_get (fds (snd (setstripe (\<lambda>e. ''errno'') (\<lambda>args. (6, [])) ''/lustre/a'' None 0 (- 1) 1
       \<lparr>fds = [Some (File ''stdin''), Some (File ''stdout''), Some (File ''stderr'')],
         pipe_data = (\<lambda>p. []), npipes = 0, calls = []\<rparr>))) r = Some (PipeRead 0) \<and>
     fd_get (fds (snd (setstripe (\<lambda>e. ''errno'') (\<lambda>args. (6, [])) ''/lustre/a'' None 0 (- 1) 1
       \<lparr>fds = [Some (File ''stdin''), Some (File ''stdout''), Some (File ''stderr'')],
         pipe_data = (\<lambda>p. []), npipes = 0, calls = []\<rparr>))) w = Some (PipeWrite 0) \<and>
     fd_get (fds (snd (setstripe (\<lambda>e. ''errno'') (\<lambda>args. (6, [])) ''/lustre/a'' None 0 (- 1) 1
       \<lparr>fds = [Some (File ''stdin''), Some (File ''stdout''), Some (File ''stderr'')],
         pipe_data = (\<lambda>p. []), npipes = 0, calls = []\<rparr>))) old = Some (File ''stderr''))"
proof -
  let ?s = "\<lparr>fds = [Some (File ''stdin''), Some (File ''stdout''), Some (File ''stderr'')],
         pipe_data = (\<lambda>p. []), npipes = 0, calls = []\<rparr>"
  have fd2: "fd_get (fds ?s) 2 = Some (File ''stderr'')"
    by (simp add: fd_get_def)
  note a = setstripe_no_release [where strerror = "\<lambda>e. ''errno''"
      and filename = "''/lustre/a''" and stripeobj = None and ssize = 0 and soffset = "- 1"
      and scount = 1 and s = ?s and ?f2.0 = "File ''stderr''"
      and llapi_file_open = "\<lambda>args. (6, [])", OF fd2]
  from a fd2 show ?thesis
    by simp
qed

end
